theory Spec2Isabelle
  imports Complex_Main "HOL-Library.AList"
begin

section \<open>The declarations of \<^verbatim>\<open>packages/lib/src/types.ts\<close>\<close>

text \<open>
  The source file holds declarations only: two type aliases, one interface, one object type
  and one \<^verbatim>\<open>declare class\<close>. Each declaration is translated member by member into a
  term of the type language below; what a declaration admits is given by a conformance
  relation between JavaScript values and those terms.
\<close>

subsection \<open>JavaScript values\<close>

text \<open>A JavaScript number is a finite value, a NaN or an infinity.\<close>

datatype js_number = Finite real | NaN | PosInfinity | NegInfinity

text \<open>
  Canvas elements, callables and promises are opaque: a value of one of these kinds is
  known by its identity only. An object is the list of its own properties.
\<close>

datatype js_value =
    JUndefined
  | JNull
  | JBoolean bool
  | JNumber js_number
  | JString string
  | JCanvas nat
  | JFunction nat
  | JPromise nat
  | JObject "(string \<times> js_value) list"

subsection \<open>The type language of the declarations\<close>

datatype mutability = Readonly | Mutable

datatype presence = Required | Optional

datatype visibility = Public | Protected | Private

text \<open>
  A property carries its \<^verbatim>\<open>readonly\<close> modifier, its name, its \<^verbatim>\<open>?\<close> modifier, its type
  and the value its doc comment gives under \<^verbatim>\<open>@default\<close>, if any.
\<close>

datatype ts_type =
    TString
  | TNumber
  | TBoolean
  | TVoid
  | TNumLit int
  | TStrLit string
  | THTMLCanvasElement
  | TUnion "ts_type list"
  | TFunction "parameter list" ts_type
  | TPromise ts_type
  | TObject "property list"
and parameter =
    Parameter string presence ts_type
and property =
    PropertySig mutability string presence ts_type "js_value option"

fun pmut :: "property \<Rightarrow> mutability" where
  "pmut (PropertySig m n p t d) = m"

fun pname :: "property \<Rightarrow> string" where
  "pname (PropertySig m n p t d) = n"

fun ppresence :: "property \<Rightarrow> presence" where
  "ppresence (PropertySig m n p t d) = p"

fun ptype :: "property \<Rightarrow> ts_type" where
  "ptype (PropertySig m n p t d) = t"

fun pdefault :: "property \<Rightarrow> js_value option" where
  "pdefault (PropertySig m n p t d) = d"

definition property_names :: "property list \<Rightarrow> string list" where
  "property_names ps = map pname ps"

definition lookup_property :: "property list \<Rightarrow> string \<Rightarrow> property option" where
  "lookup_property ps n = find (\<lambda>p. pname p = n) ps"

text \<open>The names of the properties that carry no \<^verbatim>\<open>?\<close>, and of those that do.\<close>

definition required_names :: "property list \<Rightarrow> string list" where
  "required_names ps = map pname (filter (\<lambda>p. ppresence p = Required) ps)"

definition optional_names :: "property list \<Rightarrow> string list" where
  "optional_names ps = map pname (filter (\<lambda>p. ppresence p = Optional) ps)"

definition readonly_names :: "property list \<Rightarrow> string list" where
  "readonly_names ps = map pname (filter (\<lambda>p. pmut p = Readonly) ps)"

definition mutable_names :: "property list \<Rightarrow> string list" where
  "mutable_names ps = map pname (filter (\<lambda>p. pmut p = Mutable) ps)"

text \<open>
  \<^verbatim>\<open>Pick<T, K>\<close> keeps the properties of \<^verbatim>\<open>T\<close> whose name is in \<^verbatim>\<open>K\<close>, modifiers
  included. The intersection \<^verbatim>\<open>A & B\<close> of two object types with disjoint property names
  has the properties of both.
\<close>

definition Pick :: "property list \<Rightarrow> string list \<Rightarrow> property list" where
  "Pick ps ks = filter (\<lambda>p. pname p \<in> set ks) ps"

definition Intersection :: "property list \<Rightarrow> property list \<Rightarrow> property list" where
  "Intersection ps qs = ps @ qs"

subsection \<open>Conformance of a value to a type\<close>

text \<open>
  Under strict null checks: \<^verbatim>\<open>null\<close> belongs to none of the types used here, and
  \<^verbatim>\<open>undefined\<close> only to \<^verbatim>\<open>void\<close>. An optional property may be missing or hold
  \<^verbatim>\<open>undefined\<close>; properties the type does not name are not looked at. A callable conforms
  to every function type and a promise to every promise type: neither shows its signature.
\<close>

fun conforms :: "js_value \<Rightarrow> ts_type \<Rightarrow> bool"
and conforms_any :: "js_value \<Rightarrow> ts_type list \<Rightarrow> bool"
and conforms_props :: "(string \<times> js_value) list \<Rightarrow> property list \<Rightarrow> bool"
where
  "conforms v TString = (case v of JString s \<Rightarrow> True | _ \<Rightarrow> False)"
| "conforms v TNumber = (case v of JNumber x \<Rightarrow> True | _ \<Rightarrow> False)"
| "conforms v TBoolean = (case v of JBoolean b \<Rightarrow> True | _ \<Rightarrow> False)"
| "conforms v TVoid = (v = JUndefined)"
| "conforms v (TNumLit k) = (v = JNumber (Finite (of_int k)))"
| "conforms v (TStrLit s) = (v = JString s)"
| "conforms v THTMLCanvasElement = (case v of JCanvas c \<Rightarrow> True | _ \<Rightarrow> False)"
| "conforms v (TUnion ts) = conforms_any v ts"
| "conforms v (TFunction ps r) = (case v of JFunction f \<Rightarrow> True | _ \<Rightarrow> False)"
| "conforms v (TPromise t) = (case v of JPromise q \<Rightarrow> True | _ \<Rightarrow> False)"
| "conforms v (TObject ps) = (case v of JObject fs \<Rightarrow> conforms_props fs ps | _ \<Rightarrow> False)"
| "conforms_any v [] = False"
| "conforms_any v (t # ts) = (conforms v t \<or> conforms_any v ts)"
| "conforms_props fs [] = True"
| "conforms_props fs (PropertySig m n p t d # ps) =
     ((case map_of fs n of
         None \<Rightarrow> p = Optional
       | Some v \<Rightarrow> (p = Optional \<and> v = JUndefined) \<or> conforms v t)
      \<and> conforms_props fs ps)"

text \<open>
  A call conforms to a parameter list when it passes no more arguments than there are
  parameters, every argument passed conforms to its parameter (an optional one also
  takes \<^verbatim>\<open>undefined\<close>), and every parameter left without an argument is optional.
\<close>

fun accepts_arguments :: "parameter list \<Rightarrow> js_value list \<Rightarrow> bool" where
  "accepts_arguments [] [] = True"
| "accepts_arguments [] (a # as) = False"
| "accepts_arguments (Parameter n p t # ps) [] = (p = Optional \<and> accepts_arguments ps [])"
| "accepts_arguments (Parameter n p t # ps) (a # as) =
     (((p = Optional \<and> a = JUndefined) \<or> conforms a t) \<and> accepts_arguments ps as)"

text \<open>
  The assignment \<^verbatim>\<open>obj.n = v\<close> for \<^verbatim>\<open>obj\<close> of object type \<^verbatim>\<open>T\<close>: refused when \<^verbatim>\<open>T\<close>
  has no property \<^verbatim>\<open>n\<close>, when the property is \<^verbatim>\<open>readonly\<close>, and when \<^verbatim>\<open>v\<close> does not
  conform to the property's type; the object with the property updated otherwise.
\<close>

datatype assign_error = NoSuchProperty | ReadonlyProperty | TypeMismatch

definition assign_property ::
  "property list \<Rightarrow> string \<Rightarrow> js_value \<Rightarrow> (string \<times> js_value) list
    \<Rightarrow> assign_error + (string \<times> js_value) list" where
  "assign_property T n v obj =
     (case lookup_property T n of
        None \<Rightarrow> Inl NoSuchProperty
      | Some q \<Rightarrow>
          if pmut q = Readonly then Inl ReadonlyProperty
          else if (ppresence q = Optional \<and> v = JUndefined) \<or> conforms v (ptype q)
          then Inr (AList.update n v obj)
          else Inl TypeMismatch)"

subsection \<open>The declarations\<close>

text \<open>\<^verbatim>\<open>export type CanvasElement = HTMLCanvasElement | string\<close>\<close>

definition CanvasElement :: ts_type where
  "CanvasElement = TUnion [THTMLCanvasElement, TString]"

text \<open>\<^verbatim>\<open>export type IWebGLContextAttributes = { ... }\<close>, ten properties.\<close>

definition IWebGLContextAttributes :: "property list" where
  "IWebGLContextAttributes =
    [ PropertySig Readonly ''alpha'' Optional TBoolean (Some (JBoolean True)),
      PropertySig Readonly ''antialias'' Optional TBoolean (Some (JBoolean True)),
      PropertySig Readonly ''depth'' Optional TBoolean (Some (JBoolean True)),
      PropertySig Readonly ''failIfMajorPerformanceCaveat'' Optional TBoolean
        (Some (JBoolean False)),
      PropertySig Readonly ''powerPreference'' Optional
        (TUnion [TStrLit ''default'', TStrLit ''high-performance'', TStrLit ''low-power''])
        (Some (JString ''default'')),
      PropertySig Readonly ''premultipliedAlpha'' Optional TBoolean (Some (JBoolean True)),
      PropertySig Readonly ''preserveDrawingBuffer'' Optional TBoolean (Some (JBoolean False)),
      PropertySig Readonly ''stencil'' Optional TBoolean (Some (JBoolean False)),
      PropertySig Readonly ''desynchronized'' Optional TBoolean (Some (JBoolean False)),
      PropertySig Readonly ''xrCompatible'' Optional TBoolean (Some (JBoolean False)) ]"

text \<open>\<^verbatim>\<open>export interface IUnityArguments { ... }\<close>, fourteen properties.\<close>

definition IUnityArguments :: "property list" where
  "IUnityArguments =
    [ PropertySig Readonly ''dataUrl'' Required TString None,
      PropertySig Readonly ''frameworkUrl'' Required TString None,
      PropertySig Readonly ''codeUrl'' Required TString None,
      PropertySig Readonly ''streamingAssetsUrl'' Optional TString None,
      PropertySig Readonly ''memoryUrl'' Optional TString None,
      PropertySig Readonly ''symbolsUrl'' Optional TString None,
      PropertySig Readonly ''companyName'' Optional TString None,
      PropertySig Readonly ''productName'' Optional TString None,
      PropertySig Readonly ''productVersion'' Optional TString None,
      PropertySig Readonly ''devicePixelRatio'' Optional TNumber None,
      PropertySig Readonly ''matchWebGLToCanvasSize'' Optional TBoolean None,
      PropertySig Readonly ''webglContextAttributes'' Optional (TObject IWebGLContextAttributes)
        None,
      PropertySig Mutable ''print'' Optional
        (TFunction [Parameter ''message'' Required TString] TVoid) None,
      PropertySig Mutable ''printError'' Optional
        (TFunction [Parameter ''message'' Required TString] TVoid) None ]"

text \<open>
  \<^verbatim>\<open>export type IUnityConfig = Pick<IUnityArguments, ...> & { readonly loaderUrl: string }\<close>
\<close>

definition IUnityConfig :: "property list" where
  "IUnityConfig =
    Intersection
      (Pick IUnityArguments
        [ ''dataUrl'', ''frameworkUrl'', ''codeUrl'', ''streamingAssetsUrl'', ''memoryUrl'',
          ''symbolsUrl'', ''companyName'', ''productName'', ''productVersion'',
          ''devicePixelRatio'', ''matchWebGLToCanvasSize'', ''webglContextAttributes'' ])
      [ PropertySig Readonly ''loaderUrl'' Required TString None ]"

text \<open>
  \<^verbatim>\<open>export declare class UnityInstance { ... }\<close>: a constructor without parameters and
  four public members, none of them \<^verbatim>\<open>readonly\<close>. The type of the member \<^verbatim>\<open>Module\<close>
  is written in place in the source; it is named here.
\<close>

record class_declaration =
  constructor_parameters :: "parameter list"
  members :: "(visibility \<times> property) list"

definition UnityInstance_Module :: "property list" where
  "UnityInstance_Module = [ PropertySig Mutable ''canvas'' Optional THTMLCanvasElement None ]"

definition UnityInstance :: class_declaration where
  "UnityInstance =
    \<lparr> constructor_parameters = [],
      members =
        [ (Public, PropertySig Mutable ''SendMessage'' Required
            (TFunction
              [ Parameter ''objectName'' Required TString,
                Parameter ''methodName'' Required TString,
                Parameter ''parameter'' Optional (TUnion [TString, TNumber, TBoolean]) ]
              TVoid) None),
          (Public, PropertySig Mutable ''SetFullscreen'' Required
            (TFunction [ Parameter ''fullScreen'' Required (TUnion [TNumLit 0, TNumLit 1]) ]
              TVoid) None),
          (Public, PropertySig Mutable ''Quit'' Required
            (TFunction [] (TPromise TVoid)) None),
          (Public, PropertySig Mutable ''Module'' Required (TObject UnityInstance_Module)
            None) ] \<rparr>"

text \<open>What a class shows of its instances: the public members.\<close>

definition exposed :: "class_declaration \<Rightarrow> property list" where
  "exposed c = map snd (filter (\<lambda>m. fst m = Public) (members c))"

definition member_type :: "class_declaration \<Rightarrow> string \<Rightarrow> ts_type option" where
  "member_type c n = map_option ptype (lookup_property (exposed c) n)"

text \<open>The parameter list and the return type of a method, when the member is one.\<close>

fun signature_of :: "ts_type option \<Rightarrow> (parameter list \<times> ts_type) option" where
  "signature_of (Some (TFunction ps r)) = Some (ps, r)"
| "signature_of _ = None"

text \<open>
  The return type of a method, and whether a call of it with the given arguments conforms
  to its declared parameters.
\<close>

definition method_result :: "class_declaration \<Rightarrow> string \<Rightarrow> ts_type option" where
  "method_result c n = map_option snd (signature_of (member_type c n))"

definition accepts_call :: "class_declaration \<Rightarrow> string \<Rightarrow> js_value list \<Rightarrow> bool" where
  "accepts_call c n args =
     (case signature_of (member_type c n) of
        None \<Rightarrow> False
      | Some (ps, r) \<Rightarrow> accepts_arguments ps args)"

text \<open>Reading \<^verbatim>\<open>obj.n\<close>: the property's value, \<^verbatim>\<open>undefined\<close> when the object has none.\<close>

definition read_property :: "(string \<times> js_value) list \<Rightarrow> string \<Rightarrow> js_value" where
  "read_property obj n = (case map_of obj n of None \<Rightarrow> JUndefined | Some v \<Rightarrow> v)"

section \<open>The Instance Lifecycle Manager\<close>

text \<open>
  The source declares the instance a manager would drive and the configuration it would
  take; no manager is implemented under \<^verbatim>\<open>packages/lib/src\<close>. The definitions of this
  section follow the specification's sections 4.1, 7 and 9.
\<close>

text \<open>
  Modelled from the spec: the lifecycle states of the Instance Lifecycle Manager
  (section 4.1), of which the source has no counterpart.
\<close>

datatype lifecycle = Idle | Loading | Running | Quitting | Terminated | Failed

text \<open>
  Modelled from the spec: the error kinds of section 7. \<open>ValidationError\<close> is the
  synchronous validation error of section 9, to which the spec gives no name of its own.
\<close>

datatype error =
    InvalidConfigurationError
  | AlreadyBoundError
  | BootstrapError
  | NotRunningError
  | TeardownError
  | ValidationError

text \<open>
  Modelled from the spec: the optional message parameter as a closed variant over absent,
  string, number and boolean (section 9); absent is \<open>None\<close>.
\<close>

datatype message_parameter = PString string | PNumber js_number | PBoolean bool

text \<open>
  Modelled from the spec: the argument a message parameter stands for in a call of the
  instance; the absent parameter is \<^verbatim>\<open>undefined\<close>.
\<close>

fun parameter_value :: "message_parameter option \<Rightarrow> js_value" where
  "parameter_value None = JUndefined"
| "parameter_value (Some (PString s)) = JString s"
| "parameter_value (Some (PNumber x)) = JNumber x"
| "parameter_value (Some (PBoolean b)) = JBoolean b"

text \<open>
  Modelled from the spec: the commands the manager hands to the opaque runtime instance
  (section 6), each a call of a declared member of \<open>UnityInstance\<close>.
\<close>

datatype instance_call =
    CallSendMessage string string "message_parameter option"
  | CallSetFullscreen bool
  | CallQuit

text \<open>
  Modelled from the spec: the member's name and the arguments of such a call; the toggle
  of \<open>setFullscreen\<close> is passed as the number 1 or 0.
\<close>

fun call_of :: "instance_call \<Rightarrow> string \<times> js_value list" where
  "call_of (CallSendMessage objectName methodName par) =
     (''SendMessage'', [JString objectName, JString methodName, parameter_value par])"
| "call_of (CallSetFullscreen enabled) =
     (''SetFullscreen'', [JNumber (Finite (if enabled then 1 else 0))])"
| "call_of CallQuit = (''Quit'', [])"

text \<open>
  Modelled from the spec: the manager's state. \<open>calls\<close> are the commands handed to the
  instance so far, oldest first; \<open>detachments\<close> counts the detachments of the drawable
  surface; \<open>quit_result\<close> is the single completion slot of \<open>quit\<close> (section 9), \<open>None\<close>
  until the instance has confirmed its release.
\<close>

record manager =
  state :: lifecycle
  calls :: "instance_call list"
  detachments :: nat
  quit_result :: "(error + unit) option"

text \<open>
  Modelled from the spec: \<open>sendMessage\<close> (section 4.1) is valid only from \<open>Running\<close> and
  fails with \<open>NotRunningError\<close> in any other state, whatever its arguments (section 8);
  the names must be non-empty; a failure leaves the manager as it was; a message that
  passes is handed to the instance and nothing is returned.
\<close>

definition sendMessage ::
  "string \<Rightarrow> string \<Rightarrow> message_parameter option \<Rightarrow> manager \<Rightarrow> (error + unit) \<times> manager" where
  "sendMessage objectName methodName par m =
     (if state m \<noteq> Running then (Inl NotRunningError, m)
      else if objectName = [] \<or> methodName = [] then (Inl ValidationError, m)
      else (Inr (), m\<lparr>calls := calls m @ [CallSendMessage objectName methodName par]\<rparr>))"

text \<open>
  Modelled from the spec: \<open>setFullscreen\<close> (section 4.1) is valid only from \<open>Running\<close>,
  fails with \<open>NotRunningError\<close> otherwise (section 8), and hands the toggle to the
  instance.
\<close>

definition setFullscreen :: "bool \<Rightarrow> manager \<Rightarrow> (error + unit) \<times> manager" where
  "setFullscreen enabled m =
     (if state m \<noteq> Running then (Inl NotRunningError, m)
      else (Inr (), m\<lparr>calls := calls m @ [CallSetFullscreen enabled]\<rparr>))"

text \<open>
  Modelled from the spec: \<open>quit\<close> (section 4.1) is valid from \<open>Running\<close> and \<open>Loading\<close>,
  where it moves to \<open>Quitting\<close> at once (from \<open>Running\<close> the instance is told to quit;
  while \<open>Loading\<close> there is no instance yet); called while \<open>Quitting\<close> or \<open>Terminated\<close> it
  changes nothing. Its completion is read from \<open>quit_result\<close>, the one slot every call
  of \<open>quit\<close> shares. The spec names no result for \<open>Idle\<close> and \<open>Failed\<close>; the wrong-state
  error of section 7 is returned there.
\<close>

definition quit :: "manager \<Rightarrow> (error + unit) \<times> manager" where
  "quit m =
     (case state m of
        Running \<Rightarrow> (Inr (), m\<lparr>state := Quitting, calls := calls m @ [CallQuit]\<rparr>)
      | Loading \<Rightarrow> (Inr (), m\<lparr>state := Quitting\<rparr>)
      | Quitting \<Rightarrow> (Inr (), m)
      | Terminated \<Rightarrow> (Inr (), m)
      | Idle \<Rightarrow> (Inl NotRunningError, m)
      | Failed \<Rightarrow> (Inl NotRunningError, m))"

text \<open>
  Modelled from the spec: the instance confirms its release (section 4.1), with success or
  with a \<open>TeardownError\<close> (section 7). Either way a manager that is \<open>Quitting\<close> detaches
  the surface, becomes \<open>Terminated\<close> and settles the completion slot with the outcome. In
  any other state there is no release to confirm.
\<close>

definition release_confirmed :: "error + unit \<Rightarrow> manager \<Rightarrow> manager" where
  "release_confirmed outcome m =
     (if state m = Quitting
      then m\<lparr>state := Terminated, detachments := Suc (detachments m),
             quit_result := Some outcome\<rparr>
      else m)"

text \<open>
  Modelled from the spec: what happens to a manager, as a sequence of \<open>quit\<close> calls and
  release confirmations.
\<close>

datatype event = QuitCalled | ReleaseConfirmed "error + unit"

text \<open>Modelled from the spec: the manager after one event, and after a sequence of them.\<close>

fun step :: "manager \<Rightarrow> event \<Rightarrow> manager" where
  "step m QuitCalled = snd (quit m)"
| "step m (ReleaseConfirmed outcome) = release_confirmed outcome m"

definition run :: "event list \<Rightarrow> manager \<Rightarrow> manager" where
  "run es m = foldl step m es"

text \<open>
  Modelled from the spec: the outcomes of the release confirmations among the events, in
  order.
\<close>

fun confirmations :: "event list \<Rightarrow> (error + unit) list" where
  "confirmations [] = []"
| "confirmations (QuitCalled # es) = confirmations es"
| "confirmations (ReleaseConfirmed outcome # es) = outcome # confirmations es"

text \<open>
  Modelled from the spec: what \<open>create\<close> asks of a required locator, to be a non-empty
  string (section 4.1).
\<close>

definition nonempty_string :: "js_value \<Rightarrow> bool" where
  "nonempty_string v = (case v of JString s \<Rightarrow> s \<noteq> [] | _ \<Rightarrow> False)"

text \<open>
  Modelled from the spec: the validation step of \<open>create\<close> (sections 4.1 and 7): every
  required locator of the configuration is a non-empty string, or the configuration is
  refused with \<open>InvalidConfigurationError\<close>. The required locators are the properties
  \<open>IUnityConfig\<close> declares without \<^verbatim>\<open>?\<close>.
\<close>

definition validate_configuration :: "(string \<times> js_value) list \<Rightarrow> error + unit" where
  "validate_configuration cfg =
     (if list_all (\<lambda>n. case map_of cfg n of None \<Rightarrow> False | Some v \<Rightarrow> nonempty_string v)
           (required_names IUnityConfig)
      then Inr ()
      else Inl InvalidConfigurationError)"

text \<open>
  Modelled from the spec: the context-attribute set the manager hands to the underlying
  context creation call (section 3). The set is passed through opaquely: what is handed
  over is the value the configuration holds under \<open>webglContextAttributes\<close>, as it is,
  and \<^verbatim>\<open>undefined\<close> when the configuration holds none.
\<close>

definition context_attributes_handed :: "(string \<times> js_value) list \<Rightarrow> js_value" where
  "context_attributes_handed cfg = read_property cfg ''webglContextAttributes''"

section \<open>Auxiliary facts\<close>

lemmas declaration_defs =
  property_names_def lookup_property_def required_names_def optional_names_def
  readonly_names_def mutable_names_def Pick_def Intersection_def exposed_def member_type_def
  IUnityConfig_def IUnityArguments_def IWebGLContextAttributes_def UnityInstance_def
  UnityInstance_Module_def CanvasElement_def method_result_def accepts_call_def

lemma case_JString: "(case v of JString s \<Rightarrow> True | _ \<Rightarrow> False) = (\<exists>s. v = JString s)"
  by (cases v) simp_all

lemma case_JNumber: "(case v of JNumber x \<Rightarrow> True | _ \<Rightarrow> False) = (\<exists>x. v = JNumber x)"
  by (cases v) simp_all

lemma case_JBoolean: "(case v of JBoolean b \<Rightarrow> True | _ \<Rightarrow> False) = (\<exists>b. v = JBoolean b)"
  by (cases v) simp_all

lemma case_JCanvas: "(case v of JCanvas c \<Rightarrow> True | _ \<Rightarrow> False) = (\<exists>c. v = JCanvas c)"
  by (cases v) simp_all

lemmas case_js_value = case_JString case_JNumber case_JBoolean case_JCanvas

lemma property_names_IUnityConfig:
  "property_names IUnityConfig =
     [ ''dataUrl'', ''frameworkUrl'', ''codeUrl'', ''streamingAssetsUrl'', ''memoryUrl'',
       ''symbolsUrl'', ''companyName'', ''productName'', ''productVersion'',
       ''devicePixelRatio'', ''matchWebGLToCanvasSize'', ''webglContextAttributes'',
       ''loaderUrl'' ]"
  by (simp add: declaration_defs)

lemma required_names_IUnityConfig:
  "required_names IUnityConfig = [''dataUrl'', ''frameworkUrl'', ''codeUrl'', ''loaderUrl'']"
  by (simp add: declaration_defs)

lemma optional_names_IUnityConfig:
  "optional_names IUnityConfig =
     [ ''streamingAssetsUrl'', ''memoryUrl'', ''symbolsUrl'', ''companyName'', ''productName'',
       ''productVersion'', ''devicePixelRatio'', ''matchWebGLToCanvasSize'',
       ''webglContextAttributes'' ]"
  by (simp add: declaration_defs)

lemma property_names_IUnityArguments:
  "property_names IUnityArguments =
     [ ''dataUrl'', ''frameworkUrl'', ''codeUrl'', ''streamingAssetsUrl'', ''memoryUrl'',
       ''symbolsUrl'', ''companyName'', ''productName'', ''productVersion'',
       ''devicePixelRatio'', ''matchWebGLToCanvasSize'', ''webglContextAttributes'',
       ''print'', ''printError'' ]"
  by (simp add: declaration_defs)

lemma property_names_IWebGLContextAttributes:
  "property_names IWebGLContextAttributes =
     [ ''alpha'', ''antialias'', ''depth'', ''failIfMajorPerformanceCaveat'',
       ''powerPreference'', ''premultipliedAlpha'', ''preserveDrawingBuffer'', ''stencil'',
       ''desynchronized'', ''xrCompatible'' ]"
  by (simp add: declaration_defs)

lemma assign_IUnityConfig_refused:
  "n \<in> set (property_names IUnityConfig)
     \<Longrightarrow> assign_property IUnityConfig n v obj = Inl ReadonlyProperty"
  by (auto simp add: declaration_defs assign_property_def)

lemma assign_IWebGLContextAttributes_refused:
  "n \<in> set (property_names IWebGLContextAttributes)
     \<Longrightarrow> assign_property IWebGLContextAttributes n v obj = Inl ReadonlyProperty"
  by (auto simp add: declaration_defs assign_property_def)

lemma assign_IUnityArguments_refused:
  "n \<in> set (property_names IUnityArguments) \<Longrightarrow> n \<noteq> ''print'' \<Longrightarrow> n \<noteq> ''printError''
     \<Longrightarrow> assign_property IUnityArguments n v obj = Inl ReadonlyProperty"
  by (auto simp add: declaration_defs assign_property_def)

lemma assign_sink_accepted:
  "assign_property IUnityArguments ''print'' (JFunction f) obj
     = Inr (AList.update ''print'' (JFunction f) obj)"
  "assign_property IUnityArguments ''printError'' (JFunction f) obj
     = Inr (AList.update ''printError'' (JFunction f) obj)"
  by (simp_all add: declaration_defs assign_property_def)

text \<open>A conforming object holds every required property, with a conforming value.\<close>

lemma conforms_props_required:
  "conforms_props fs ps \<Longrightarrow> PropertySig m n Required t d \<in> set ps
     \<Longrightarrow> \<exists>v. map_of fs n = Some v \<and> conforms v t"
proof (induction ps)
  case Nil
  then show ?case by simp
next
  case (Cons q ps)
  then show ?case by (cases q) (auto split: option.splits)
qed

lemma conforms_IUnityConfig_required:
  assumes "conforms (JObject fs) (TObject IUnityConfig)"
  shows "(\<exists>s. map_of fs ''loaderUrl'' = Some (JString s))
       \<and> (\<exists>s. map_of fs ''dataUrl'' = Some (JString s))
       \<and> (\<exists>s. map_of fs ''frameworkUrl'' = Some (JString s))
       \<and> (\<exists>s. map_of fs ''codeUrl'' = Some (JString s))"
proof -
  from assms have c: "conforms_props fs IUnityConfig" by simp
  have "PropertySig Readonly ''loaderUrl'' Required TString None \<in> set IUnityConfig"
       "PropertySig Readonly ''dataUrl'' Required TString None \<in> set IUnityConfig"
       "PropertySig Readonly ''frameworkUrl'' Required TString None \<in> set IUnityConfig"
       "PropertySig Readonly ''codeUrl'' Required TString None \<in> set IUnityConfig"
    by (simp_all add: declaration_defs)
  from this[THEN conforms_props_required[OF c]] show ?thesis
    by (simp add: case_js_value) blast
qed

lemma conforms_IUnityConfig_minimal:
  "conforms
     (JObject [ (''loaderUrl'', JString a), (''dataUrl'', JString b),
                (''frameworkUrl'', JString c), (''codeUrl'', JString d) ])
     (TObject IUnityConfig)"
  by (simp add: declaration_defs)

lemma nonempty_string_iff: "nonempty_string v \<longleftrightarrow> (\<exists>s. v = JString s \<and> s \<noteq> [])"
  by (cases v) (simp_all add: nonempty_string_def)

lemma locator_checked:
  "(case map_of cfg n of None \<Rightarrow> False | Some v \<Rightarrow> nonempty_string v)
     \<longleftrightarrow> (\<exists>s. map_of cfg n = Some (JString s) \<and> s \<noteq> [])"
  by (cases "map_of cfg n") (simp_all add: nonempty_string_iff)

lemma validate_configuration_iff:
  "validate_configuration cfg = Inr () \<longleftrightarrow>
       (\<exists>s. map_of cfg ''loaderUrl'' = Some (JString s) \<and> s \<noteq> [])
     \<and> (\<exists>s. map_of cfg ''dataUrl'' = Some (JString s) \<and> s \<noteq> [])
     \<and> (\<exists>s. map_of cfg ''frameworkUrl'' = Some (JString s) \<and> s \<noteq> [])
     \<and> (\<exists>s. map_of cfg ''codeUrl'' = Some (JString s) \<and> s \<noteq> [])"
  unfolding validate_configuration_def required_names_IUnityConfig
  by (simp add: locator_checked)

lemma accepts_SendMessage_two:
  "accepts_call UnityInstance ''SendMessage'' [a, b]
     \<longleftrightarrow> (\<exists>s. a = JString s) \<and> (\<exists>s. b = JString s)"
  by (simp add: declaration_defs case_js_value)

lemma accepts_SendMessage_three:
  "accepts_call UnityInstance ''SendMessage'' [a, b, c] \<longleftrightarrow>
     (\<exists>s. a = JString s) \<and> (\<exists>s. b = JString s) \<and>
     (c = JUndefined \<or> (\<exists>s. c = JString s) \<or> (\<exists>x. c = JNumber x) \<or> (\<exists>t. c = JBoolean t))"
  by (simp add: declaration_defs case_js_value)

lemma accepts_SendMessage_relayed:
  "accepts_call UnityInstance ''SendMessage''
     (snd (call_of (CallSendMessage objectName methodName par)))"
proof (cases par)
  case None
  then show ?thesis by (simp add: accepts_SendMessage_three)
next
  case (Some p)
  then show ?thesis by (cases p) (simp_all add: accepts_SendMessage_three)
qed

lemma accepts_SetFullscreen:
  "accepts_call UnityInstance ''SetFullscreen'' args \<longleftrightarrow>
     args = [JNumber (Finite 0)] \<or> args = [JNumber (Finite 1)]"
proof (cases args)
  case Nil
  then show ?thesis by (simp add: declaration_defs)
next
  case (Cons a as)
  then show ?thesis by (cases as) (auto simp add: declaration_defs)
qed

lemma run_Nil: "run [] m = m"
  by (simp add: run_def)

lemma run_Cons: "run (e # es) m = run es (step m e)"
  by (simp add: run_def)

lemma step_Terminated: "state m = Terminated \<Longrightarrow> step m e = m"
  by (cases e) (simp_all add: quit_def release_confirmed_def)

lemma run_Terminated: "state m = Terminated \<Longrightarrow> run es m = m"
  by (induction es) (simp_all add: run_Nil run_Cons step_Terminated)

text \<open>
  Once \<open>Quitting\<close>, whatever calls of \<open>quit\<close> and confirmations follow: the surface is
  detached at the first confirmation and never again, the completion slot holds the first
  confirmation's outcome, and nothing more is handed to the instance.
\<close>

lemma run_Quitting:
  "state m = Quitting \<Longrightarrow>
     detachments (run es m) = detachments m + (if confirmations es = [] then 0 else 1)
   \<and> quit_result (run es m)
       = (case confirmations es of [] \<Rightarrow> quit_result m | r # rs \<Rightarrow> Some r)
   \<and> state (run es m) = (if confirmations es = [] then Quitting else Terminated)
   \<and> calls (run es m) = calls m"
proof (induction es arbitrary: m)
  case Nil
  then show ?case by (simp add: run_Nil)
next
  case (Cons e es)
  show ?case
  proof (cases e)
    case QuitCalled
    with Cons show ?thesis by (simp add: run_Cons quit_def)
  next
    case (ReleaseConfirmed r)
    have t: "state (release_confirmed r m) = Terminated"
      using Cons.prems by (simp add: release_confirmed_def)
    show ?thesis
      using Cons.prems ReleaseConfirmed run_Terminated[OF t, of es]
      by (simp add: run_Cons) (simp add: release_confirmed_def)
  qed
qed

lemma quit_accepted:
  "state m = Running \<or> state m = Loading \<Longrightarrow>
     fst (quit m) = Inr () \<and> state (snd (quit m)) = Quitting
   \<and> detachments (snd (quit m)) = detachments m
   \<and> quit_result (snd (quit m)) = quit_result m"
  by (auto simp add: quit_def)

text \<open>
  The validation step of \<open>create\<close> reads the four required locators and nothing else: it
  gives the same verdict whatever the configuration holds under another name.
\<close>

lemma validate_configuration_reads_locators:
  assumes "k \<notin> set (required_names IUnityConfig)"
  shows "validate_configuration (AList.update k v cfg) = validate_configuration cfg"
proof -
  have "map_of (AList.update k v cfg) n = map_of cfg n"
    if "n \<in> set (required_names IUnityConfig)" for n
    using that assms by (auto simp add: update_conv')
  then have "list_all (\<lambda>n. case map_of (AList.update k v cfg) n of
                 None \<Rightarrow> False | Some v \<Rightarrow> nonempty_string v) (required_names IUnityConfig)
           = list_all (\<lambda>n. case map_of cfg n of
                 None \<Rightarrow> False | Some v \<Rightarrow> nonempty_string v) (required_names IUnityConfig)"
    by (simp add: list_all_iff)
  then show ?thesis
    by (simp only: validate_configuration_def)
qed

lemma read_property_update: "read_property (AList.update k v obj) k = v"
  by (simp add: read_property_def update_conv')

section \<open>The claims\<close>

text \<open>
  Claim C1. For every call of \<open>sendMessage\<close>: the object name and the method name must be
  non-empty strings; the parameter is optional and, when present, a string, a number or a
  boolean, no object being accepted; the call returns no value.

  On the declaration: \<open>SendMessage\<close> returns \<^verbatim>\<open>void\<close>; a call with two arguments is
  accepted exactly when both are strings, a call with three exactly when moreover the
  third is \<^verbatim>\<open>undefined\<close>, a string, a number or a boolean, so that no object is
  accepted. On the manager: the parameter ranges over the closed variant;
  a call that succeeds has non-empty names, and hands to the instance one call, which
  the declaration accepts; in \<open>Running\<close>, a call with an empty name is refused and changes
  nothing.
\<close>

theorem sendMessage_arguments:
  "method_result UnityInstance ''SendMessage'' = Some TVoid
   \<and> (accepts_call UnityInstance ''SendMessage'' [a, b]
        \<longleftrightarrow> (\<exists>s. a = JString s) \<and> (\<exists>s. b = JString s))
   \<and> (accepts_call UnityInstance ''SendMessage'' [a, b, c]
        \<longleftrightarrow> (\<exists>s. a = JString s) \<and> (\<exists>s. b = JString s) \<and>
            (c = JUndefined \<or> (\<exists>s. c = JString s) \<or> (\<exists>x. c = JNumber x)
              \<or> (\<exists>t. c = JBoolean t)))
   \<and> \<not> accepts_call UnityInstance ''SendMessage'' [a, b, JObject fs]
   \<and> (par = None \<or> (\<exists>s. par = Some (PString s)) \<or> (\<exists>x. par = Some (PNumber x))
        \<or> (\<exists>t. par = Some (PBoolean t)))
   \<and> (fst (sendMessage objectName methodName par m) = Inr () \<longrightarrow>
        objectName \<noteq> [] \<and> methodName \<noteq> []
      \<and> calls (snd (sendMessage objectName methodName par m))
          = calls m @ [CallSendMessage objectName methodName par]
      \<and> accepts_call UnityInstance ''SendMessage''
          (snd (call_of (CallSendMessage objectName methodName par))))
   \<and> (state m = Running \<and> (objectName = [] \<or> methodName = []) \<longrightarrow>
        fst (sendMessage objectName methodName par m) \<noteq> Inr ()
      \<and> snd (sendMessage objectName methodName par m) = m)
   \<and> (state m = Running \<and> objectName \<noteq> [] \<and> methodName \<noteq> [] \<longrightarrow>
        fst (sendMessage objectName methodName par m) = Inr ())"
proof -
  have variant: "par = None \<or> (\<exists>s. par = Some (PString s)) \<or> (\<exists>x. par = Some (PNumber x))
      \<or> (\<exists>t. par = Some (PBoolean t))"
  proof (cases par)
    case None
    then show ?thesis by simp
  next
    case (Some p)
    then show ?thesis by (cases p) simp_all
  qed
  have result: "method_result UnityInstance ''SendMessage'' = Some TVoid"
    by (simp add: declaration_defs)
  have success: "fst (sendMessage objectName methodName par m) = Inr () \<longrightarrow>
        objectName \<noteq> [] \<and> methodName \<noteq> []
      \<and> calls (snd (sendMessage objectName methodName par m))
          = calls m @ [CallSendMessage objectName methodName par]"
    by (simp add: sendMessage_def)
  have refused: "state m = Running \<and> (objectName = [] \<or> methodName = []) \<longrightarrow>
        fst (sendMessage objectName methodName par m) \<noteq> Inr ()
      \<and> snd (sendMessage objectName methodName par m) = m"
    by (simp add: sendMessage_def)
  have passes: "state m = Running \<and> objectName \<noteq> [] \<and> methodName \<noteq> [] \<longrightarrow>
        fst (sendMessage objectName methodName par m) = Inr ()"
    by (simp add: sendMessage_def)
  have no_object: "\<not> accepts_call UnityInstance ''SendMessage'' [a, b, JObject fs]"
    by (simp add: accepts_SendMessage_three)
  have relayed: "fst (sendMessage objectName methodName par m) = Inr () \<longrightarrow>
        objectName \<noteq> [] \<and> methodName \<noteq> []
      \<and> calls (snd (sendMessage objectName methodName par m))
          = calls m @ [CallSendMessage objectName methodName par]
      \<and> accepts_call UnityInstance ''SendMessage''
          (snd (call_of (CallSendMessage objectName methodName par)))"
    using success accepts_SendMessage_relayed[of objectName methodName par] by blast
  show ?thesis
    by (intro conjI)
      (fact result accepts_SendMessage_two accepts_SendMessage_three no_object
        variant relayed refused passes)+
qed

theorem sendMessage_arguments_witness:
  "fst (sendMessage ''Player'' ''Jump'' (Some (PNumber (Finite 3)))
         \<lparr>state = Running, calls = [], detachments = 0, quit_result = None\<rparr>) = Inr ()
   \<and> ''Player'' \<noteq> [] \<and> ''Jump'' \<noteq> []
   \<and> calls (snd (sendMessage ''Player'' ''Jump'' (Some (PNumber (Finite 3)))
         \<lparr>state = Running, calls = [], detachments = 0, quit_result = None\<rparr>))
       = [CallSendMessage ''Player'' ''Jump'' (Some (PNumber (Finite 3)))]
   \<and> accepts_call UnityInstance ''SendMessage''
       [JString ''Player'', JString ''Jump'', JNumber (Finite 3)]
   \<and> fst (sendMessage [] ''Jump'' None
         \<lparr>state = Running, calls = [], detachments = 0, quit_result = None\<rparr>) \<noteq> Inr ()
   \<and> snd (sendMessage [] ''Jump'' None
         \<lparr>state = Running, calls = [], detachments = 0, quit_result = None\<rparr>)
       = \<lparr>state = Running, calls = [], detachments = 0, quit_result = None\<rparr>"
  using sendMessage_arguments
    [of "JString ''Player''" "JString ''Jump''" "JNumber (Finite 3)" "[]"
        "Some (PNumber (Finite 3))" "''Player''" "''Jump''"
        "\<lparr>state = Running, calls = [], detachments = 0, quit_result = None\<rparr>"]
    sendMessage_arguments
    [of "JString ''Player''" "JString ''Jump''" "JNumber (Finite 3)" "[]"
        "None" "[]" "''Jump''"
        "\<lparr>state = Running, calls = [], detachments = 0, quit_result = None\<rparr>"]
  by simp

text \<open>
  Claim C2. \<open>setFullscreen\<close> takes a boolean-like toggle, and invoking it does not alter
  the lifecycle state.

  On the declaration: \<open>SetFullscreen\<close> accepts exactly the one-argument calls with the
  number 0 or the number 1, and returns \<^verbatim>\<open>void\<close>. On the manager: whatever the state and
  the toggle, the state after the call is the state before it; the call handed to the
  instance for either value of the toggle is one the declaration accepts.
\<close>

theorem setFullscreen_keeps_state:
  "(accepts_call UnityInstance ''SetFullscreen'' args
      \<longleftrightarrow> args = [JNumber (Finite 0)] \<or> args = [JNumber (Finite 1)])
   \<and> method_result UnityInstance ''SetFullscreen'' = Some TVoid
   \<and> accepts_call UnityInstance ''SetFullscreen'' (snd (call_of (CallSetFullscreen enabled)))
   \<and> state (snd (setFullscreen enabled m)) = state m
   \<and> detachments (snd (setFullscreen enabled m)) = detachments m
   \<and> quit_result (snd (setFullscreen enabled m)) = quit_result m"
proof -
  have result: "method_result UnityInstance ''SetFullscreen'' = Some TVoid"
    by (simp add: declaration_defs)
  have relayed:
    "accepts_call UnityInstance ''SetFullscreen'' (snd (call_of (CallSetFullscreen enabled)))"
    by (simp add: accepts_SetFullscreen)
  have unchanged: "state (snd (setFullscreen enabled m)) = state m"
    "detachments (snd (setFullscreen enabled m)) = detachments m"
    "quit_result (snd (setFullscreen enabled m)) = quit_result m"
    by (simp_all add: setFullscreen_def)
  show ?thesis
    by (intro conjI) (fact accepts_SetFullscreen result relayed unchanged)+
qed

theorem setFullscreen_keeps_state_witness:
  "accepts_call UnityInstance ''SetFullscreen'' [JNumber (Finite 1)]
   \<and> \<not> accepts_call UnityInstance ''SetFullscreen'' [JBoolean True]
   \<and> state (snd (setFullscreen True
        \<lparr>state = Running, calls = [], detachments = 0, quit_result = None\<rparr>)) = Running
   \<and> state (snd (setFullscreen True
        \<lparr>state = Quitting, calls = [CallQuit], detachments = 0, quit_result = None\<rparr>))
       = Quitting"
  using setFullscreen_keeps_state
    [of "[JNumber (Finite 1)]" True
        "\<lparr>state = Running, calls = [], detachments = 0, quit_result = None\<rparr>"]
    setFullscreen_keeps_state
    [of "[JBoolean True]" True
        "\<lparr>state = Quitting, calls = [CallQuit], detachments = 0, quit_result = None\<rparr>"]
  by simp

text \<open>
  Claim C3, as stated: the configuration is write-once, no field of it, the diagnostic
  sink slots included, may be mutated after instance creation begins.

  The declarations say otherwise for the sinks: \<open>IUnityArguments\<close> declares \<open>print\<close> and
  \<open>printError\<close> without \<^verbatim>\<open>readonly\<close>, so an assignment of a callable to either is
  accepted on an object that conforms to \<open>IUnityArguments\<close>.
\<close>

theorem configuration_write_once_counterexample:
  "conforms
     (JObject [ (''dataUrl'', JString ''Build/game.data''),
                (''frameworkUrl'', JString ''Build/game.framework.js''),
                (''codeUrl'', JString ''Build/game.wasm''),
                (''print'', JFunction 0) ])
     (TObject IUnityArguments)
   \<and> assign_property IUnityArguments ''print'' (JFunction 1)
       [ (''dataUrl'', JString ''Build/game.data''),
         (''frameworkUrl'', JString ''Build/game.framework.js''),
         (''codeUrl'', JString ''Build/game.wasm''),
         (''print'', JFunction 0) ]
     = Inr [ (''dataUrl'', JString ''Build/game.data''),
             (''frameworkUrl'', JString ''Build/game.framework.js''),
             (''codeUrl'', JString ''Build/game.wasm''),
             (''print'', JFunction 1) ]
   \<and> mutable_names IUnityArguments = [''print'', ''printError'']"
  by (simp add: declaration_defs assign_property_def)

text \<open>
  Claim C3, amended. Every property of \<open>IUnityConfig\<close>, every property of
  \<open>IWebGLContextAttributes\<close> and every property of \<open>IUnityArguments\<close> but \<open>print\<close> and
  \<open>printError\<close> is declared \<^verbatim>\<open>readonly\<close>: an assignment to it is refused, whatever the
  value and the object. The two sinks are not properties of \<open>IUnityConfig\<close>; in
  \<open>IUnityArguments\<close> they are the only properties that can be assigned, and the
  assignment of a callable to either is accepted.
\<close>

theorem configuration_readonly_properties:
  "readonly_names IUnityConfig = property_names IUnityConfig
   \<and> readonly_names IWebGLContextAttributes = property_names IWebGLContextAttributes
   \<and> mutable_names IUnityArguments = [''print'', ''printError'']
   \<and> lookup_property IUnityConfig ''print'' = None
   \<and> lookup_property IUnityConfig ''printError'' = None
   \<and> (n \<in> set (property_names IUnityConfig) \<longrightarrow>
        assign_property IUnityConfig n v obj = Inl ReadonlyProperty)
   \<and> (n \<in> set (property_names IWebGLContextAttributes) \<longrightarrow>
        assign_property IWebGLContextAttributes n v obj = Inl ReadonlyProperty)
   \<and> (n \<in> set (property_names IUnityArguments) \<and> n \<noteq> ''print'' \<and> n \<noteq> ''printError'' \<longrightarrow>
        assign_property IUnityArguments n v obj = Inl ReadonlyProperty)
   \<and> assign_property IUnityArguments ''print'' (JFunction f) obj
       = Inr (AList.update ''print'' (JFunction f) obj)
   \<and> assign_property IUnityArguments ''printError'' (JFunction f) obj
       = Inr (AList.update ''printError'' (JFunction f) obj)"
proof -
  have modifiers:
    "readonly_names IUnityConfig = property_names IUnityConfig"
    "readonly_names IWebGLContextAttributes = property_names IWebGLContextAttributes"
    "mutable_names IUnityArguments = [''print'', ''printError'']"
    "lookup_property IUnityConfig ''print'' = None"
    "lookup_property IUnityConfig ''printError'' = None"
    by (simp_all add: declaration_defs)
  have config: "n \<in> set (property_names IUnityConfig) \<longrightarrow>
      assign_property IUnityConfig n v obj = Inl ReadonlyProperty"
    using assign_IUnityConfig_refused by blast
  have attributes: "n \<in> set (property_names IWebGLContextAttributes) \<longrightarrow>
      assign_property IWebGLContextAttributes n v obj = Inl ReadonlyProperty"
    using assign_IWebGLContextAttributes_refused by blast
  have arguments:
    "n \<in> set (property_names IUnityArguments) \<and> n \<noteq> ''print'' \<and> n \<noteq> ''printError'' \<longrightarrow>
      assign_property IUnityArguments n v obj = Inl ReadonlyProperty"
    using assign_IUnityArguments_refused by blast
  show ?thesis
    by (intro conjI) (fact modifiers config attributes arguments assign_sink_accepted)+
qed

theorem configuration_readonly_properties_witness:
  "''dataUrl'' \<in> set (property_names IUnityConfig)
   \<and> assign_property IUnityConfig ''dataUrl'' (JString ''other.data'')
       [ (''loaderUrl'', JString ''Build/game.loader.js''),
         (''dataUrl'', JString ''Build/game.data''),
         (''frameworkUrl'', JString ''Build/game.framework.js''),
         (''codeUrl'', JString ''Build/game.wasm'') ]
     = Inl ReadonlyProperty
   \<and> ''dataUrl'' \<in> set (property_names IUnityArguments)
   \<and> assign_property IUnityArguments ''dataUrl'' (JString ''other.data'')
       [ (''loaderUrl'', JString ''Build/game.loader.js''),
         (''dataUrl'', JString ''Build/game.data''),
         (''frameworkUrl'', JString ''Build/game.framework.js''),
         (''codeUrl'', JString ''Build/game.wasm'') ]
     = Inl ReadonlyProperty
   \<and> ''alpha'' \<in> set (property_names IWebGLContextAttributes)
   \<and> assign_property IWebGLContextAttributes ''alpha'' (JBoolean False) [] = Inl ReadonlyProperty"
proof -
  have config: "''dataUrl'' \<in> set (property_names IUnityConfig)"
    by (simp add: property_names_IUnityConfig)
  have arguments: "''dataUrl'' \<in> set (property_names IUnityArguments)"
    by (simp add: property_names_IUnityArguments)
  have attributes: "''alpha'' \<in> set (property_names IWebGLContextAttributes)"
    by (simp add: property_names_IWebGLContextAttributes)
  show ?thesis
    using config arguments attributes
      configuration_readonly_properties
        [of "''dataUrl''" "JString ''other.data''"
            "[ (''loaderUrl'', JString ''Build/game.loader.js''),
               (''dataUrl'', JString ''Build/game.data''),
               (''frameworkUrl'', JString ''Build/game.framework.js''),
               (''codeUrl'', JString ''Build/game.wasm'') ]" 0]
      configuration_readonly_properties [of "''alpha''" "JBoolean False" "[]" 0]
    by simp
qed

text \<open>
  Claim C4. In the configuration the loader locator and the data, framework and code
  locators are required, and must be non-empty strings at create time; the
  streaming-assets root and the legacy memory and debug-symbol locators are optional.

  On the declaration: the properties \<open>IUnityConfig\<close> declares without \<^verbatim>\<open>?\<close> are
  \<open>dataUrl\<close>, \<open>frameworkUrl\<close>, \<open>codeUrl\<close> and \<open>loaderUrl\<close>; \<open>streamingAssetsUrl\<close>,
  \<open>memoryUrl\<close> and \<open>symbolsUrl\<close> are among those it declares with \<^verbatim>\<open>?\<close>; all seven are
  strings. An object that conforms holds a string under each of the four required names,
  and an object that holds the four and nothing else conforms. On the manager: the
  validation step of \<open>create\<close> passes exactly when each of the four is a non-empty string,
  and refuses with \<open>InvalidConfigurationError\<close> otherwise.
\<close>

theorem configuration_locators:
  "required_names IUnityConfig = [''dataUrl'', ''frameworkUrl'', ''codeUrl'', ''loaderUrl'']
   \<and> ''streamingAssetsUrl'' \<in> set (optional_names IUnityConfig)
   \<and> ''memoryUrl'' \<in> set (optional_names IUnityConfig)
   \<and> ''symbolsUrl'' \<in> set (optional_names IUnityConfig)
   \<and> map (\<lambda>n. map_option ptype (lookup_property IUnityConfig n))
        [ ''loaderUrl'', ''dataUrl'', ''frameworkUrl'', ''codeUrl'', ''streamingAssetsUrl'',
          ''memoryUrl'', ''symbolsUrl'' ]
       = replicate 7 (Some TString)
   \<and> (conforms (JObject fs) (TObject IUnityConfig) \<longrightarrow>
          (\<exists>s. map_of fs ''loaderUrl'' = Some (JString s))
        \<and> (\<exists>s. map_of fs ''dataUrl'' = Some (JString s))
        \<and> (\<exists>s. map_of fs ''frameworkUrl'' = Some (JString s))
        \<and> (\<exists>s. map_of fs ''codeUrl'' = Some (JString s)))
   \<and> conforms
        (JObject [ (''loaderUrl'', JString a), (''dataUrl'', JString b),
                   (''frameworkUrl'', JString c), (''codeUrl'', JString d) ])
        (TObject IUnityConfig)
   \<and> (validate_configuration cfg = Inr () \<longleftrightarrow>
          (\<exists>s. map_of cfg ''loaderUrl'' = Some (JString s) \<and> s \<noteq> [])
        \<and> (\<exists>s. map_of cfg ''dataUrl'' = Some (JString s) \<and> s \<noteq> [])
        \<and> (\<exists>s. map_of cfg ''frameworkUrl'' = Some (JString s) \<and> s \<noteq> [])
        \<and> (\<exists>s. map_of cfg ''codeUrl'' = Some (JString s) \<and> s \<noteq> []))
   \<and> (validate_configuration cfg = Inr ()
        \<or> validate_configuration cfg = Inl InvalidConfigurationError)"
proof -
  have optional:
    "''streamingAssetsUrl'' \<in> set (optional_names IUnityConfig)"
    "''memoryUrl'' \<in> set (optional_names IUnityConfig)"
    "''symbolsUrl'' \<in> set (optional_names IUnityConfig)"
    by (simp_all add: optional_names_IUnityConfig)
  have strings:
    "map (\<lambda>n. map_option ptype (lookup_property IUnityConfig n))
        [ ''loaderUrl'', ''dataUrl'', ''frameworkUrl'', ''codeUrl'', ''streamingAssetsUrl'',
          ''memoryUrl'', ''symbolsUrl'' ]
       = replicate 7 (Some TString)"
    by (simp add: declaration_defs numeral_eq_Suc)
  have held: "conforms (JObject fs) (TObject IUnityConfig) \<longrightarrow>
          (\<exists>s. map_of fs ''loaderUrl'' = Some (JString s))
        \<and> (\<exists>s. map_of fs ''dataUrl'' = Some (JString s))
        \<and> (\<exists>s. map_of fs ''frameworkUrl'' = Some (JString s))
        \<and> (\<exists>s. map_of fs ''codeUrl'' = Some (JString s))"
    using conforms_IUnityConfig_required by blast
  have outcome: "validate_configuration cfg = Inr ()
        \<or> validate_configuration cfg = Inl InvalidConfigurationError"
    by (simp add: validate_configuration_def)
  show ?thesis
    by (intro conjI)
      (fact required_names_IUnityConfig optional strings held conforms_IUnityConfig_minimal
        validate_configuration_iff outcome)+
qed

theorem configuration_locators_witness:
  "conforms
     (JObject [ (''loaderUrl'', JString ''Build/game.loader.js''), (''dataUrl'', JString []),
                (''frameworkUrl'', JString ''Build/game.framework.js''),
                (''codeUrl'', JString ''Build/game.wasm'') ])
     (TObject IUnityConfig)
   \<and> map_of [ (''loaderUrl'', JString ''Build/game.loader.js''), (''dataUrl'', JString []),
              (''frameworkUrl'', JString ''Build/game.framework.js''),
              (''codeUrl'', JString ''Build/game.wasm'') ] ''dataUrl'' = Some (JString [])
   \<and> validate_configuration
       [ (''loaderUrl'', JString ''Build/game.loader.js''), (''dataUrl'', JString []),
         (''frameworkUrl'', JString ''Build/game.framework.js''),
         (''codeUrl'', JString ''Build/game.wasm'') ]
     = Inl InvalidConfigurationError
   \<and> validate_configuration
       [ (''loaderUrl'', JString ''Build/game.loader.js''),
         (''dataUrl'', JString ''Build/game.data''),
         (''frameworkUrl'', JString ''Build/game.framework.js''),
         (''codeUrl'', JString ''Build/game.wasm'') ]
     = Inr ()"
  using configuration_locators
    [of "[ (''loaderUrl'', JString ''Build/game.loader.js''), (''dataUrl'', JString []),
           (''frameworkUrl'', JString ''Build/game.framework.js''),
           (''codeUrl'', JString ''Build/game.wasm'') ]"
        "''Build/game.loader.js''" "[]" "''Build/game.framework.js''" "''Build/game.wasm''"
        "[ (''loaderUrl'', JString ''Build/game.loader.js''), (''dataUrl'', JString []),
           (''frameworkUrl'', JString ''Build/game.framework.js''),
           (''codeUrl'', JString ''Build/game.wasm'') ]"]
    configuration_locators
    [of "[]" "[]" "[]" "[]" "[]"
        "[ (''loaderUrl'', JString ''Build/game.loader.js''),
           (''dataUrl'', JString ''Build/game.data''),
           (''frameworkUrl'', JString ''Build/game.framework.js''),
           (''codeUrl'', JString ''Build/game.wasm'') ]"]
  by auto

text \<open>
  Claim C5. The runtime instance exposes exactly four capabilities: \<open>sendMessage\<close> with an
  object name, a method name and an optional parameter, returning nothing; \<open>setFullscreen\<close>
  with a flag, returning nothing; \<open>quit\<close>, returning a completion signal; and a readable
  reference to the bound drawable surface. Nothing else is visible.

  The class \<open>UnityInstance\<close> declares four members, all public: the methods \<open>SendMessage\<close>,
  \<open>SetFullscreen\<close> and \<open>Quit\<close> with the signatures below, and \<open>Module\<close>, an object whose
  only property is \<open>canvas\<close>, of type \<^verbatim>\<open>HTMLCanvasElement\<close>. A name has a member type
  exactly when it is one of the four.
\<close>

theorem UnityInstance_four_capabilities:
  "property_names (exposed UnityInstance)
     = [''SendMessage'', ''SetFullscreen'', ''Quit'', ''Module'']
   \<and> map snd (members UnityInstance) = exposed UnityInstance
   \<and> length (members UnityInstance) = 4
   \<and> (member_type UnityInstance n \<noteq> None
        \<longleftrightarrow> n \<in> {''SendMessage'', ''SetFullscreen'', ''Quit'', ''Module''})
   \<and> signature_of (member_type UnityInstance ''SendMessage'')
       = Some ([ Parameter ''objectName'' Required TString,
                 Parameter ''methodName'' Required TString,
                 Parameter ''parameter'' Optional (TUnion [TString, TNumber, TBoolean]) ],
               TVoid)
   \<and> signature_of (member_type UnityInstance ''SetFullscreen'')
       = Some ([ Parameter ''fullScreen'' Required (TUnion [TNumLit 0, TNumLit 1]) ], TVoid)
   \<and> signature_of (member_type UnityInstance ''Quit'') = Some ([], TPromise TVoid)
   \<and> member_type UnityInstance ''Module'' = Some (TObject UnityInstance_Module)
   \<and> property_names UnityInstance_Module = [''canvas'']
   \<and> map_option ptype (lookup_property UnityInstance_Module ''canvas'')
       = Some THTMLCanvasElement"
proof -
  have names: "member_type UnityInstance n \<noteq> None
        \<longleftrightarrow> n \<in> {''SendMessage'', ''SetFullscreen'', ''Quit'', ''Module''}"
    by (auto simp add: declaration_defs)
  have rest:
    "property_names (exposed UnityInstance)
       = [''SendMessage'', ''SetFullscreen'', ''Quit'', ''Module'']"
    "map snd (members UnityInstance) = exposed UnityInstance"
    "length (members UnityInstance) = 4"
    "signature_of (member_type UnityInstance ''SendMessage'')
       = Some ([ Parameter ''objectName'' Required TString,
                 Parameter ''methodName'' Required TString,
                 Parameter ''parameter'' Optional (TUnion [TString, TNumber, TBoolean]) ],
               TVoid)"
    "signature_of (member_type UnityInstance ''SetFullscreen'')
       = Some ([ Parameter ''fullScreen'' Required (TUnion [TNumLit 0, TNumLit 1]) ], TVoid)"
    "signature_of (member_type UnityInstance ''Quit'') = Some ([], TPromise TVoid)"
    "member_type UnityInstance ''Module'' = Some (TObject UnityInstance_Module)"
    "property_names UnityInstance_Module = [''canvas'']"
    "map_option ptype (lookup_property UnityInstance_Module ''canvas'')
       = Some THTMLCanvasElement"
    by (simp_all add: declaration_defs)
  show ?thesis
    by (intro conjI) (fact names rest)+
qed

theorem UnityInstance_four_capabilities_witness:
  "member_type UnityInstance ''Quit'' \<noteq> None
   \<and> member_type UnityInstance ''quit'' = None
   \<and> member_type UnityInstance ''canvas'' = None"
  using UnityInstance_four_capabilities [of "''Quit''"]
    UnityInstance_four_capabilities [of "''quit''"]
    UnityInstance_four_capabilities [of "''canvas''"]
  by simp

text \<open>
  Claim C6, as stated: the context-attribute set consists of the alpha-channel,
  antialiasing, depth-buffer, stencil-buffer, power-preference, premultiplied-alpha,
  preserve-drawing-buffer, desynchronized-rendering and XR-compatibility attributes.

  \<open>IWebGLContextAttributes\<close> declares a tenth, \<open>failIfMajorPerformanceCaveat\<close>, which is
  none of the nine.
\<close>

theorem context_attributes_nine_counterexample:
  "''failIfMajorPerformanceCaveat'' \<in> set (property_names IWebGLContextAttributes)
   \<and> ''failIfMajorPerformanceCaveat'' \<notin>
       { ''alpha'', ''antialias'', ''depth'', ''stencil'', ''powerPreference'',
         ''premultipliedAlpha'', ''preserveDrawingBuffer'', ''desynchronized'',
         ''xrCompatible'' }
   \<and> length (property_names IWebGLContextAttributes) = 10"
  by (simp add: property_names_IWebGLContextAttributes)

text \<open>
  Claim C6, amended. The context-attribute set of the configuration consists of the
  alpha-channel, antialiasing, depth-buffer, fail-if-major-performance-caveat,
  power-preference, premultiplied-alpha, preserve-drawing-buffer, stencil-buffer,
  desynchronized-rendering and XR-compatibility attributes; every one of these attributes is
  optional with a documented default, and the set is passed through opaquely without being
  interpreted by this layer.

  On the declaration: \<open>IWebGLContextAttributes\<close> declares the ten properties below, every
  one with \<^verbatim>\<open>?\<close>, so that the empty set of attributes conforms, and every one with a
  documented default, a value of the property's own type; \<open>IUnityConfig\<close> declares
  \<open>webglContextAttributes\<close> as \<open>IUnityArguments\<close> does, optional and of this type. On the
  manager: what is handed to the context creation call is the value the configuration
  holds under \<open>webglContextAttributes\<close>, whatever that value is, be it a set of attributes
  or not; and the validation step of \<open>create\<close> gives the same verdict whatever that value
  is.
\<close>

theorem context_attributes_ten:
  "property_names IWebGLContextAttributes =
     [ ''alpha'', ''antialias'', ''depth'', ''failIfMajorPerformanceCaveat'',
       ''powerPreference'', ''premultipliedAlpha'', ''preserveDrawingBuffer'', ''stencil'',
       ''desynchronized'', ''xrCompatible'' ]
   \<and> optional_names IWebGLContextAttributes = property_names IWebGLContextAttributes
   \<and> required_names IWebGLContextAttributes = []
   \<and> conforms (JObject []) (TObject IWebGLContextAttributes)
   \<and> map pdefault IWebGLContextAttributes =
       [ Some (JBoolean True), Some (JBoolean True), Some (JBoolean True),
         Some (JBoolean False), Some (JString ''default''), Some (JBoolean True),
         Some (JBoolean False), Some (JBoolean False), Some (JBoolean False),
         Some (JBoolean False) ]
   \<and> list_all (\<lambda>p. case pdefault p of None \<Rightarrow> False | Some d \<Rightarrow> conforms d (ptype p))
        IWebGLContextAttributes
   \<and> lookup_property IUnityConfig ''webglContextAttributes''
       = lookup_property IUnityArguments ''webglContextAttributes''
   \<and> map_option ptype (lookup_property IUnityConfig ''webglContextAttributes'')
       = Some (TObject IWebGLContextAttributes)
   \<and> map_option ppresence (lookup_property IUnityConfig ''webglContextAttributes'')
       = Some Optional
   \<and> (map_of cfg ''webglContextAttributes'' = Some v \<longrightarrow> context_attributes_handed cfg = v)
   \<and> (map_of cfg ''webglContextAttributes'' = None \<longrightarrow>
        context_attributes_handed cfg = JUndefined)
   \<and> context_attributes_handed (AList.update ''webglContextAttributes'' v cfg) = v
   \<and> validate_configuration (AList.update ''webglContextAttributes'' v cfg)
       = validate_configuration cfg"
proof -
  have attributes:
    "optional_names IWebGLContextAttributes = property_names IWebGLContextAttributes"
    "required_names IWebGLContextAttributes = []"
    "conforms (JObject []) (TObject IWebGLContextAttributes)"
    "map pdefault IWebGLContextAttributes =
       [ Some (JBoolean True), Some (JBoolean True), Some (JBoolean True),
         Some (JBoolean False), Some (JString ''default''), Some (JBoolean True),
         Some (JBoolean False), Some (JBoolean False), Some (JBoolean False),
         Some (JBoolean False) ]"
    "list_all (\<lambda>p. case pdefault p of None \<Rightarrow> False | Some d \<Rightarrow> conforms d (ptype p))
        IWebGLContextAttributes"
    by (simp_all add: declaration_defs)
  have carried:
    "lookup_property IUnityConfig ''webglContextAttributes''
       = lookup_property IUnityArguments ''webglContextAttributes''"
    "map_option ptype (lookup_property IUnityConfig ''webglContextAttributes'')
       = Some (TObject IWebGLContextAttributes)"
    "map_option ppresence (lookup_property IUnityConfig ''webglContextAttributes'')
       = Some Optional"
    by (simp_all add: lookup_property_def IUnityConfig_def IUnityArguments_def Pick_def
          Intersection_def)
  have handed:
    "map_of cfg ''webglContextAttributes'' = Some v \<longrightarrow> context_attributes_handed cfg = v"
    "map_of cfg ''webglContextAttributes'' = None \<longrightarrow>
       context_attributes_handed cfg = JUndefined"
    by (simp_all add: context_attributes_handed_def read_property_def)
  have replaced:
    "context_attributes_handed (AList.update ''webglContextAttributes'' v cfg) = v"
    by (simp add: context_attributes_handed_def read_property_update)
  have no_locator: "''webglContextAttributes'' \<notin> set (required_names IUnityConfig)"
    by (simp add: required_names_IUnityConfig)
  have unread:
    "validate_configuration (AList.update ''webglContextAttributes'' v cfg)
       = validate_configuration cfg"
    using no_locator by (rule validate_configuration_reads_locators)
  show ?thesis
    by (intro conjI)
      (fact property_names_IWebGLContextAttributes attributes carried handed replaced
        unread)+
qed

text \<open>
  A set of attributes is handed over as it is, and so is a value that is no set of
  attributes; the validation accepts the configuration with either.
\<close>

theorem context_attributes_ten_witness:
  "map_of [ (''loaderUrl'', JString ''Build/game.loader.js''),
            (''dataUrl'', JString ''Build/game.data''),
            (''frameworkUrl'', JString ''Build/game.framework.js''),
            (''codeUrl'', JString ''Build/game.wasm''),
            (''webglContextAttributes'', JObject [(''alpha'', JBoolean False)]) ]
       ''webglContextAttributes''
     = Some (JObject [(''alpha'', JBoolean False)])
   \<and> context_attributes_handed
       [ (''loaderUrl'', JString ''Build/game.loader.js''),
         (''dataUrl'', JString ''Build/game.data''),
         (''frameworkUrl'', JString ''Build/game.framework.js''),
         (''codeUrl'', JString ''Build/game.wasm''),
         (''webglContextAttributes'', JObject [(''alpha'', JBoolean False)]) ]
     = JObject [(''alpha'', JBoolean False)]
   \<and> map_of [ (''webglContextAttributes'', JString ''not a set of attributes'') ]
       ''webglContextAttributes''
     = Some (JString ''not a set of attributes'')
   \<and> context_attributes_handed
       [ (''webglContextAttributes'', JString ''not a set of attributes'') ]
     = JString ''not a set of attributes''
   \<and> map_of [ (''loaderUrl'', JString ''Build/game.loader.js'') ] ''webglContextAttributes''
     = None
   \<and> context_attributes_handed [ (''loaderUrl'', JString ''Build/game.loader.js'') ]
     = JUndefined
   \<and> length (property_names IWebGLContextAttributes) = 10"
proof -
  have present:
    "map_of [ (''loaderUrl'', JString ''Build/game.loader.js''),
              (''dataUrl'', JString ''Build/game.data''),
              (''frameworkUrl'', JString ''Build/game.framework.js''),
              (''codeUrl'', JString ''Build/game.wasm''),
              (''webglContextAttributes'', JObject [(''alpha'', JBoolean False)]) ]
         ''webglContextAttributes''
       = Some (JObject [(''alpha'', JBoolean False)])"
    by simp
  have other:
    "map_of [ (''webglContextAttributes'', JString ''not a set of attributes'') ]
         ''webglContextAttributes''
       = Some (JString ''not a set of attributes'')"
    by simp
  have absent:
    "map_of [ (''loaderUrl'', JString ''Build/game.loader.js'') ] ''webglContextAttributes''
       = None"
    by simp
  show ?thesis
    using present other absent
      context_attributes_ten
        [of "[ (''loaderUrl'', JString ''Build/game.loader.js''),
               (''dataUrl'', JString ''Build/game.data''),
               (''frameworkUrl'', JString ''Build/game.framework.js''),
               (''codeUrl'', JString ''Build/game.wasm''),
               (''webglContextAttributes'', JObject [(''alpha'', JBoolean False)]) ]"
            "JObject [(''alpha'', JBoolean False)]"]
      context_attributes_ten
        [of "[ (''webglContextAttributes'', JString ''not a set of attributes'') ]"
            "JString ''not a set of attributes''"]
      context_attributes_ten
        [of "[ (''loaderUrl'', JString ''Build/game.loader.js'') ]" JUndefined]
    by simp
qed

text \<open>
  Claim C7. \<open>quit\<close> is idempotent: a second call, made while the instance is \<open>Quitting\<close> or
  \<open>Terminated\<close>, returns the same settled result as the first, has no side effect, and
  the surface is detached exactly once across both calls.

  On the manager: a call in \<open>Quitting\<close> or \<open>Terminated\<close> is accepted and leaves the manager
  as it is, completion slot included. After a first call from \<open>Running\<close> or \<open>Loading\<close>,
  whatever calls of \<open>quit\<close> and confirmations of release follow, the surface is detached
  once if a confirmation arrives and not at all before, the slot holds the outcome of
  the first confirmation, and the manager ends \<open>Terminated\<close>; so it is in particular
  when the second call comes before the confirmation and when it comes after it.
\<close>

theorem quit_idempotent:
  "(state m = Quitting \<or> state m = Terminated \<longrightarrow> quit m = (Inr (), m))
   \<and> (state m = Running \<or> state m = Loading \<longrightarrow>
        fst (quit m) = Inr ()
      \<and> state (snd (quit m)) = Quitting
      \<and> quit (snd (quit m)) = (Inr (), snd (quit m))
      \<and> quit (release_confirmed outcome (snd (quit m)))
          = (Inr (), release_confirmed outcome (snd (quit m)))
      \<and> detachments (run (QuitCalled # es) m)
          = detachments m + (if confirmations es = [] then 0 else 1)
      \<and> quit_result (run (QuitCalled # es) m)
          = (case confirmations es of [] \<Rightarrow> quit_result m | r # rs \<Rightarrow> Some r)
      \<and> state (run (QuitCalled # es) m)
          = (if confirmations es = [] then Quitting else Terminated)
      \<and> detachments (run [QuitCalled, QuitCalled, ReleaseConfirmed outcome] m)
          = Suc (detachments m)
      \<and> detachments (run [QuitCalled, ReleaseConfirmed outcome, QuitCalled] m)
          = Suc (detachments m)
      \<and> quit_result (run [QuitCalled, QuitCalled, ReleaseConfirmed outcome] m)
          = Some outcome
      \<and> quit_result (run [QuitCalled, ReleaseConfirmed outcome, QuitCalled] m)
          = Some outcome)"
proof -
  have settled: "state m = Quitting \<or> state m = Terminated \<longrightarrow> quit m = (Inr (), m)"
    by (auto simp add: quit_def)
  have first: "state m = Running \<or> state m = Loading \<longrightarrow>
        fst (quit m) = Inr ()
      \<and> state (snd (quit m)) = Quitting
      \<and> quit (snd (quit m)) = (Inr (), snd (quit m))
      \<and> quit (release_confirmed outcome (snd (quit m)))
          = (Inr (), release_confirmed outcome (snd (quit m)))
      \<and> detachments (run (QuitCalled # es) m)
          = detachments m + (if confirmations es = [] then 0 else 1)
      \<and> quit_result (run (QuitCalled # es) m)
          = (case confirmations es of [] \<Rightarrow> quit_result m | r # rs \<Rightarrow> Some r)
      \<and> state (run (QuitCalled # es) m)
          = (if confirmations es = [] then Quitting else Terminated)
      \<and> detachments (run [QuitCalled, QuitCalled, ReleaseConfirmed outcome] m)
          = Suc (detachments m)
      \<and> detachments (run [QuitCalled, ReleaseConfirmed outcome, QuitCalled] m)
          = Suc (detachments m)
      \<and> quit_result (run [QuitCalled, QuitCalled, ReleaseConfirmed outcome] m)
          = Some outcome
      \<and> quit_result (run [QuitCalled, ReleaseConfirmed outcome, QuitCalled] m)
          = Some outcome"
  proof
    assume valid: "state m = Running \<or> state m = Loading"
    let ?m1 = "snd (quit m)"
    from quit_accepted[OF valid]
    have acc: "fst (quit m) = Inr ()" and q: "state ?m1 = Quitting"
      and d: "detachments ?m1 = detachments m" and r: "quit_result ?m1 = quit_result m"
      by simp_all
    have again: "quit ?m1 = (Inr (), ?m1)"
      using q by (simp add: quit_def)
    have t: "state (release_confirmed outcome ?m1) = Terminated"
      using q by (simp add: release_confirmed_def)
    have after: "quit (release_confirmed outcome ?m1) = (Inr (), release_confirmed outcome ?m1)"
      using t by (simp add: quit_def)
    have trace: "run (QuitCalled # es') m = run es' ?m1" for es'
      by (simp add: run_Cons)
    have general:
      "detachments (run (QuitCalled # es') m)
          = detachments m + (if confirmations es' = [] then 0 else 1)"
      "quit_result (run (QuitCalled # es') m)
          = (case confirmations es' of [] \<Rightarrow> quit_result m | r # rs \<Rightarrow> Some r)"
      "state (run (QuitCalled # es') m)
          = (if confirmations es' = [] then Quitting else Terminated)" for es'
      using run_Quitting[OF q, of es'] d r by (simp_all add: trace split: list.splits)
    have two:
      "detachments (run [QuitCalled, QuitCalled, ReleaseConfirmed outcome] m)
          = Suc (detachments m)"
      "detachments (run [QuitCalled, ReleaseConfirmed outcome, QuitCalled] m)
          = Suc (detachments m)"
      "quit_result (run [QuitCalled, QuitCalled, ReleaseConfirmed outcome] m) = Some outcome"
      "quit_result (run [QuitCalled, ReleaseConfirmed outcome, QuitCalled] m) = Some outcome"
      by (simp_all add: general)
    show "fst (quit m) = Inr ()
      \<and> state (snd (quit m)) = Quitting
      \<and> quit (snd (quit m)) = (Inr (), snd (quit m))
      \<and> quit (release_confirmed outcome (snd (quit m)))
          = (Inr (), release_confirmed outcome (snd (quit m)))
      \<and> detachments (run (QuitCalled # es) m)
          = detachments m + (if confirmations es = [] then 0 else 1)
      \<and> quit_result (run (QuitCalled # es) m)
          = (case confirmations es of [] \<Rightarrow> quit_result m | r # rs \<Rightarrow> Some r)
      \<and> state (run (QuitCalled # es) m)
          = (if confirmations es = [] then Quitting else Terminated)
      \<and> detachments (run [QuitCalled, QuitCalled, ReleaseConfirmed outcome] m)
          = Suc (detachments m)
      \<and> detachments (run [QuitCalled, ReleaseConfirmed outcome, QuitCalled] m)
          = Suc (detachments m)
      \<and> quit_result (run [QuitCalled, QuitCalled, ReleaseConfirmed outcome] m)
          = Some outcome
      \<and> quit_result (run [QuitCalled, ReleaseConfirmed outcome, QuitCalled] m)
          = Some outcome"
      by (intro conjI) (fact acc q again after general two)+
  qed
  show ?thesis
    by (intro conjI) (fact settled first)+
qed

theorem quit_idempotent_witness:
  "quit \<lparr>state = Terminated, calls = [CallQuit], detachments = 1,
          quit_result = Some (Inr ())\<rparr>
     = (Inr (), \<lparr>state = Terminated, calls = [CallQuit], detachments = 1,
                 quit_result = Some (Inr ())\<rparr>)
   \<and> detachments (run [QuitCalled, QuitCalled, ReleaseConfirmed (Inl TeardownError)]
        \<lparr>state = Running, calls = [], detachments = 0, quit_result = None\<rparr>) = 1
   \<and> detachments (run [QuitCalled, ReleaseConfirmed (Inl TeardownError), QuitCalled]
        \<lparr>state = Running, calls = [], detachments = 0, quit_result = None\<rparr>) = 1
   \<and> quit_result (run [QuitCalled, QuitCalled, ReleaseConfirmed (Inl TeardownError)]
        \<lparr>state = Running, calls = [], detachments = 0, quit_result = None\<rparr>)
       = Some (Inl TeardownError)
   \<and> quit_result (run [QuitCalled, ReleaseConfirmed (Inl TeardownError), QuitCalled]
        \<lparr>state = Running, calls = [], detachments = 0, quit_result = None\<rparr>)
       = Some (Inl TeardownError)
   \<and> state (run [QuitCalled, ReleaseConfirmed (Inr ()), QuitCalled]
        \<lparr>state = Loading, calls = [], detachments = 0, quit_result = None\<rparr>) = Terminated"
  using quit_idempotent
    [of "\<lparr>state = Terminated, calls = [CallQuit], detachments = 1,
          quit_result = Some (Inr ())\<rparr>" "Inr ()" "[]"]
    quit_idempotent
    [of "\<lparr>state = Running, calls = [], detachments = 0, quit_result = None\<rparr>"
        "Inl TeardownError" "[]"]
    quit_idempotent
    [of "\<lparr>state = Loading, calls = [], detachments = 0, quit_result = None\<rparr>"
        "Inr ()" "[ReleaseConfirmed (Inr ()), QuitCalled]"]
  by simp

text \<open>
  Claim C8. In every lifecycle state other than \<open>Running\<close>, that is in \<open>Idle\<close>, \<open>Loading\<close>,
  \<open>Quitting\<close>, \<open>Terminated\<close> and \<open>Failed\<close>, \<open>sendMessage\<close> fails at once with
  \<open>NotRunningError\<close> and leaves the lifecycle state unchanged.

  On the manager: the five states are the states other than \<open>Running\<close>, and in each of
  them the call returns \<open>NotRunningError\<close> together with the manager it was given,
  whatever the arguments.
\<close>

theorem sendMessage_outside_Running:
  "(state m \<noteq> Running \<longleftrightarrow> state m \<in> {Idle, Loading, Quitting, Terminated, Failed})
   \<and> (state m \<in> {Idle, Loading, Quitting, Terminated, Failed} \<longrightarrow>
        sendMessage objectName methodName par m = (Inl NotRunningError, m))"
proof -
  have others: "state m \<noteq> Running \<longleftrightarrow> state m \<in> {Idle, Loading, Quitting, Terminated, Failed}"
    by (cases "state m") simp_all
  have fails: "state m \<in> {Idle, Loading, Quitting, Terminated, Failed} \<longrightarrow>
        sendMessage objectName methodName par m = (Inl NotRunningError, m)"
    using others by (simp add: sendMessage_def)
  show ?thesis
    by (intro conjI) (fact others fails)+
qed

theorem sendMessage_outside_Running_witness:
  "sendMessage ''Player'' ''Jump'' (Some (PNumber (Finite 3)))
       \<lparr>state = Idle, calls = [], detachments = 0, quit_result = None\<rparr>
     = (Inl NotRunningError, \<lparr>state = Idle, calls = [], detachments = 0, quit_result = None\<rparr>)
   \<and> sendMessage ''Player'' ''Jump'' None
       \<lparr>state = Loading, calls = [], detachments = 0, quit_result = None\<rparr>
     = (Inl NotRunningError,
        \<lparr>state = Loading, calls = [], detachments = 0, quit_result = None\<rparr>)
   \<and> sendMessage ''Player'' ''Jump'' None
       \<lparr>state = Quitting, calls = [CallQuit], detachments = 0, quit_result = None\<rparr>
     = (Inl NotRunningError,
        \<lparr>state = Quitting, calls = [CallQuit], detachments = 0, quit_result = None\<rparr>)
   \<and> sendMessage [] [] None
       \<lparr>state = Terminated, calls = [CallQuit], detachments = 1, quit_result = Some (Inr ())\<rparr>
     = (Inl NotRunningError,
        \<lparr>state = Terminated, calls = [CallQuit], detachments = 1,
          quit_result = Some (Inr ())\<rparr>)
   \<and> sendMessage ''Player'' ''Jump'' (Some (PBoolean True))
       \<lparr>state = Failed, calls = [], detachments = 0, quit_result = None\<rparr>
     = (Inl NotRunningError,
        \<lparr>state = Failed, calls = [], detachments = 0, quit_result = None\<rparr>)"
  using sendMessage_outside_Running
    [of "\<lparr>state = Idle, calls = [], detachments = 0, quit_result = None\<rparr>"
        "''Player''" "''Jump''" "Some (PNumber (Finite 3))"]
    sendMessage_outside_Running
    [of "\<lparr>state = Loading, calls = [], detachments = 0, quit_result = None\<rparr>"
        "''Player''" "''Jump''" None]
    sendMessage_outside_Running
    [of "\<lparr>state = Quitting, calls = [CallQuit], detachments = 0, quit_result = None\<rparr>"
        "''Player''" "''Jump''" None]
    sendMessage_outside_Running
    [of "\<lparr>state = Terminated, calls = [CallQuit], detachments = 1,
          quit_result = Some (Inr ())\<rparr>" "[]" "[]" None]
    sendMessage_outside_Running
    [of "\<lparr>state = Failed, calls = [], detachments = 0, quit_result = None\<rparr>"
        "''Player''" "''Jump''" "Some (PBoolean True)"]
  by simp

text \<open>
  Claim C9. A drawable surface reference supplied by the caller is one of exactly two
  shapes: a handle to an existing rendering surface, or a string that locates one.

  A value conforms to \<open>CanvasElement\<close> exactly when it is a canvas element or a string, and
  no value is both.
\<close>

theorem CanvasElement_two_shapes:
  "(conforms v CanvasElement \<longleftrightarrow> (\<exists>c. v = JCanvas c) \<or> (\<exists>s. v = JString s))
   \<and> \<not> ((\<exists>c. v = JCanvas c) \<and> (\<exists>s. v = JString s))"
  by (auto simp add: CanvasElement_def case_js_value)

theorem CanvasElement_two_shapes_witness:
  "conforms (JString ''#unity-canvas'') CanvasElement
   \<and> conforms (JCanvas 0) CanvasElement
   \<and> \<not> conforms (JNumber (Finite 1)) CanvasElement
   \<and> \<not> conforms JUndefined CanvasElement
   \<and> \<not> conforms (JObject []) CanvasElement"
  using CanvasElement_two_shapes [of "JString ''#unity-canvas''"]
    CanvasElement_two_shapes [of "JCanvas 0"]
    CanvasElement_two_shapes [of "JNumber (Finite 1)"]
    CanvasElement_two_shapes [of JUndefined]
    CanvasElement_two_shapes [of "JObject []"]
  by simp

text \<open>
  Claim C10. The instance's reference to its bound drawable surface, \<open>Module.canvas\<close>, is
  optional: it may be absent, so a reader of it has to handle the absent case.

  \<open>Module\<close> declares \<open>canvas\<close> with \<^verbatim>\<open>?\<close>. An object conforms to the type of \<open>Module\<close>
  exactly when reading its \<open>canvas\<close> gives \<^verbatim>\<open>undefined\<close> or a canvas element; the object
  without any property conforms, and reading its \<open>canvas\<close> gives \<^verbatim>\<open>undefined\<close>.
\<close>

theorem Module_canvas_optional:
  "member_type UnityInstance ''Module'' = Some (TObject UnityInstance_Module)
   \<and> optional_names UnityInstance_Module = [''canvas'']
   \<and> (conforms (JObject fs) (TObject UnityInstance_Module) \<longleftrightarrow>
        read_property fs ''canvas'' = JUndefined
        \<or> (\<exists>c. read_property fs ''canvas'' = JCanvas c))
   \<and> conforms (JObject []) (TObject UnityInstance_Module)
   \<and> read_property [] ''canvas'' = JUndefined"
proof -
  have declared:
    "member_type UnityInstance ''Module'' = Some (TObject UnityInstance_Module)"
    "optional_names UnityInstance_Module = [''canvas'']"
    "conforms (JObject []) (TObject UnityInstance_Module)"
    "read_property [] ''canvas'' = JUndefined"
    by (simp_all add: declaration_defs read_property_def)
  have reads: "conforms (JObject fs) (TObject UnityInstance_Module) \<longleftrightarrow>
        read_property fs ''canvas'' = JUndefined
        \<or> (\<exists>c. read_property fs ''canvas'' = JCanvas c)"
    by (cases "map_of fs ''canvas''")
      (simp_all add: UnityInstance_Module_def read_property_def case_js_value)
  show ?thesis
    by (intro conjI) (fact declared reads)+
qed

theorem Module_canvas_optional_witness:
  "conforms (JObject [(''canvas'', JCanvas 7)]) (TObject UnityInstance_Module)
   \<and> conforms (JObject [(''canvas'', JUndefined)]) (TObject UnityInstance_Module)
   \<and> \<not> conforms (JObject [(''canvas'', JString ''#unity-canvas'')])
         (TObject UnityInstance_Module)
   \<and> conforms (JObject []) (TObject UnityInstance_Module)"
  using Module_canvas_optional [of "[(''canvas'', JCanvas 7)]"]
    Module_canvas_optional [of "[(''canvas'', JUndefined)]"]
    Module_canvas_optional [of "[(''canvas'', JString ''#unity-canvas'')]"]
  by (simp add: read_property_def)

end
